theory Spec2Isabelle
  imports Main "HOL-Library.Word" "HOL-Library.Multiset"
begin

unbundle bit_operations_syntax

section \<open>Data model\<close>

text \<open>
  The program is \<^verbatim>\<open>src/main.go\<close>: five functions over hex strings that wrap a pairing
  library (\<^verbatim>\<open>prysm/v5/crypto/bls\<close>) and a hex codec (\<^verbatim>\<open>go-ethereum/common/hexutil\<close>).
  A Go \<^verbatim>\<open>string\<close> is a sequence of bytes and is modelled as \<^typ>\<open>string\<close>; a
  \<^verbatim>\<open>[]byte\<close> and a \<^verbatim>\<open>[32]byte\<close> are lists of \<^typ>\<open>8 word\<close>.
\<close>

type_synonym byte = "8 word"

text \<open>
  Every \<^verbatim>\<open>return ..., err\<close> of the source is one constructor. The \<^verbatim>\<open>fmt.Errorf\<close> sites
  carry the library's error that they format with \<^verbatim>\<open>%v\<close>; \<open>ErrLibrary\<close> is a library error
  that the source returns as it is (the last line of both verification functions).
  \<open>PanicNilSignature\<close> is the run-time panic of calling \<^verbatim>\<open>Marshal\<close> on a nil
  \<^verbatim>\<open>common.Signature\<close> interface value: the call does not return.
\<close>

datatype 'e error =
    ErrInvalidMsgLength
  | ErrKeyGeneration 'e
  | ErrDecodeSecretKeyHex 'e
  | ErrSecretKeyFromBytes 'e
  | ErrDecodeSignatureHex 'e
  | ErrSignatureFromBytes 'e
  | ErrDecodePublicKeyHex 'e
  | ErrPublicKeyFromBytes 'e
  | ErrLibrary 'e
  | PanicNilSignature

text \<open>
  The two imported packages are not part of the repository. Their exported functions are
  the fields of a record that every function of the program takes as its first argument:
  \<open>'sk\<close>, \<open>'pk\<close> and \<open>'sig\<close> are the library's opaque \<^verbatim>\<open>common.SecretKey\<close>,
  \<^verbatim>\<open>common.PublicKey\<close> and \<^verbatim>\<open>common.Signature\<close>, \<open>'e\<close> its error values. A Go result
  \<^verbatim>\<open>(v, error)\<close> is a sum with the error on the left. \<^verbatim>\<open>bls.AggregateSignatures\<close> has no
  error result and returns an interface value, which may be nil: \<open>None\<close>.
\<close>

record ('sk, 'pk, 'sig, 'e) library =
  hexutil_Decode :: "string \<Rightarrow> 'e + byte list"
  hexutil_Encode :: "byte list \<Rightarrow> string"
  bls_SecretKeyFromBytes :: "byte list \<Rightarrow> 'e + 'sk"
  bls_PublicKeyFromBytes :: "byte list \<Rightarrow> 'e + 'pk"
  bls_SignatureFromBytes :: "byte list \<Rightarrow> 'e + 'sig"
  sk_Marshal :: "'sk \<Rightarrow> byte list"
  sk_PublicKey :: "'sk \<Rightarrow> 'pk"
  sk_Sign :: "'sk \<Rightarrow> byte list \<Rightarrow> 'sig"
  pk_Marshal :: "'pk \<Rightarrow> byte list"
  sig_Marshal :: "'sig \<Rightarrow> byte list"
  bls_AggregateSignatures :: "'sig list \<Rightarrow> 'sig option"
  bls_VerifySignature :: "byte list \<Rightarrow> byte list \<Rightarrow> 'pk \<Rightarrow> 'e + bool"
  bls_VerifyMultipleSignatures ::
    "byte list list \<Rightarrow> byte list list \<Rightarrow> 'pk list \<Rightarrow> 'e + bool"

section \<open>The program\<close>

text \<open>
  Go's built-in \<^verbatim>\<open>copy(dst, src)\<close> overwrites the first \<open>min (len dst) (len src)\<close>
  elements of \<open>dst\<close> and leaves the rest.
\<close>

definition go_copy :: "'a list \<Rightarrow> 'a list \<Rightarrow> 'a list" where
  "go_copy dst src =
     (let n = min (length dst) (length src) in take n src @ drop n dst)"

text \<open>
  \<^verbatim>\<open>var msgBytes [32]byte; copy(msgBytes[:], msg)\<close>: lines 37-38, 85-86 and 101-102.
\<close>

definition msgBytes :: "string \<Rightarrow> byte list" where
  "msgBytes msg = go_copy (replicate 32 0) (map of_char msg)"

text \<open>
  \<^verbatim>\<open>GenerateKeyPair\<close>, lines 17-24. The outcome of \<^verbatim>\<open>bls.RandKey()\<close> is the argument
  \<open>rand\<close>.
\<close>

definition GenerateKeyPair ::
  "('sk, 'pk, 'sig, 'e) library \<Rightarrow> 'e + 'sk \<Rightarrow> 'e error + string \<times> string" where
  "GenerateKeyPair L rand =
     (case rand of
        Inl err \<Rightarrow> Inl (ErrKeyGeneration err)
      | Inr sk \<Rightarrow>
          Inr (hexutil_Encode L (sk_Marshal L sk),
               hexutil_Encode L (pk_Marshal L (sk_PublicKey L sk))))"

text \<open>\<^verbatim>\<open>GenerateSignature\<close>, lines 27-41.\<close>

definition GenerateSignature ::
  "('sk, 'pk, 'sig, 'e) library \<Rightarrow> string \<Rightarrow> string \<Rightarrow> 'e error + string" where
  "GenerateSignature L privKeyHex msg =
     (case hexutil_Decode L privKeyHex of
        Inl err \<Rightarrow> Inl (ErrDecodeSecretKeyHex err)
      | Inr skBytes \<Rightarrow>
          (case bls_SecretKeyFromBytes L skBytes of
             Inl err \<Rightarrow> Inl (ErrSecretKeyFromBytes err)
           | Inr sk \<Rightarrow>
               Inr (hexutil_Encode L (sig_Marshal L (sk_Sign L sk (msgBytes msg))))))"

text \<open>
  \<^verbatim>\<open>AggregateSignatures\<close>, lines 44-62. The loop of lines 47-58 appends to \<open>sigs\<close> and
  leaves the function at the first element that does not decode.
\<close>

fun AggregateSignatures_loop ::
  "('sk, 'pk, 'sig, 'e) library \<Rightarrow> string list \<Rightarrow> 'sig list \<Rightarrow> 'e error + 'sig list" where
  "AggregateSignatures_loop L [] sigs = Inr sigs"
| "AggregateSignatures_loop L (sigHex # rest) sigs =
     (case hexutil_Decode L sigHex of
        Inl err \<Rightarrow> Inl (ErrDecodeSignatureHex err)
      | Inr sigBytes \<Rightarrow>
          (case bls_SignatureFromBytes L sigBytes of
             Inl err \<Rightarrow> Inl (ErrSignatureFromBytes err)
           | Inr sig \<Rightarrow> AggregateSignatures_loop L rest (sigs @ [sig])))"

definition AggregateSignatures ::
  "('sk, 'pk, 'sig, 'e) library \<Rightarrow> string list \<Rightarrow> 'e error + string" where
  "AggregateSignatures L sigHexes =
     (case AggregateSignatures_loop L sigHexes [] of
        Inl err \<Rightarrow> Inl err
      | Inr sigs \<Rightarrow>
          (case bls_AggregateSignatures L sigs of
             None \<Rightarrow> Inl PanicNilSignature
           | Some aggSig \<Rightarrow> Inr (hexutil_Encode L (sig_Marshal L aggSig))))"

text \<open>\<^verbatim>\<open>VerifySignature\<close>, lines 65-88.\<close>

definition VerifySignature ::
  "('sk, 'pk, 'sig, 'e) library \<Rightarrow> string \<Rightarrow> string \<Rightarrow> string \<Rightarrow> 'e error + bool" where
  "VerifySignature L pubKeyHex sigHex msg =
     (if length msg > 32 then Inl ErrInvalidMsgLength
      else
        (case hexutil_Decode L sigHex of
           Inl err \<Rightarrow> Inl (ErrDecodeSignatureHex err)
         | Inr sigBytes \<Rightarrow>
             (case hexutil_Decode L pubKeyHex of
                Inl err \<Rightarrow> Inl (ErrDecodePublicKeyHex err)
              | Inr pubKeyBytes \<Rightarrow>
                  (case bls_PublicKeyFromBytes L pubKeyBytes of
                     Inl err \<Rightarrow> Inl (ErrPublicKeyFromBytes err)
                   | Inr pubKey \<Rightarrow>
                       (case bls_VerifySignature L sigBytes (msgBytes msg) pubKey of
                          Inl err \<Rightarrow> Inl (ErrLibrary err)
                        | Inr ok \<Rightarrow> Inr ok)))))"

text \<open>
  \<^verbatim>\<open>VerifyAggregateSignature\<close>, lines 90-133. The state of the first loop is the three
  slices \<open>xMsgs\<close>, \<open>xPKs\<close> and \<open>sigs\<close>; each round appends the digest, then decodes the
  public key, then decodes the aggregate signature again. The second loop (lines 128-130)
  marshals every element of \<open>sigs\<close>.
\<close>

fun VerifyAggregateSignature_loop ::
  "('sk, 'pk, 'sig, 'e) library \<Rightarrow> string \<Rightarrow> string \<Rightarrow> string list \<Rightarrow>
     byte list list \<times> 'pk list \<times> 'sig list \<Rightarrow>
     'e error + byte list list \<times> 'pk list \<times> 'sig list" where
  "VerifyAggregateSignature_loop L aggregateSigHex msg [] st = Inr st"
| "VerifyAggregateSignature_loop L aggregateSigHex msg (pubKeyHex # rest) (xMsgs, xPKs, sigs) =
     (let xMsgs = xMsgs @ [msgBytes msg] in
      case hexutil_Decode L pubKeyHex of
        Inl err \<Rightarrow> Inl (ErrDecodePublicKeyHex err)
      | Inr pubKeyBytes \<Rightarrow>
          (case bls_PublicKeyFromBytes L pubKeyBytes of
             Inl err \<Rightarrow> Inl (ErrPublicKeyFromBytes err)
           | Inr pubKey \<Rightarrow>
               (let xPKs = xPKs @ [pubKey] in
                case hexutil_Decode L aggregateSigHex of
                  Inl err \<Rightarrow> Inl (ErrDecodeSignatureHex err)
                | Inr sigBytes \<Rightarrow>
                    (case bls_SignatureFromBytes L sigBytes of
                       Inl err \<Rightarrow> Inl (ErrSignatureFromBytes err)
                     | Inr sig \<Rightarrow>
                         VerifyAggregateSignature_loop L aggregateSigHex msg rest
                           (xMsgs, xPKs, sigs @ [sig])))))"

definition VerifyAggregateSignature ::
  "('sk, 'pk, 'sig, 'e) library \<Rightarrow> string \<Rightarrow> string \<Rightarrow> string list \<Rightarrow> 'e error + bool" where
  "VerifyAggregateSignature L aggregateSigHex msg pubKeyHexes =
     (case VerifyAggregateSignature_loop L aggregateSigHex msg pubKeyHexes ([], [], []) of
        Inl err \<Rightarrow> Inl err
      | Inr (xMsgs, xPKs, sigs) \<Rightarrow>
          (case bls_VerifyMultipleSignatures L (map (sig_Marshal L) sigs) xMsgs xPKs of
             Inl err \<Rightarrow> Inl (ErrLibrary err)
           | Inr ok \<Rightarrow> Inr ok))"

section \<open>Well-formed inputs\<close>

text \<open>
  A well-formed hex string decodes as hex and its bytes deserialize. These functions
  run the same two library calls as the program does and are used to state the theorems.
\<close>

definition sk_of_hex :: "('sk, 'pk, 'sig, 'e) library \<Rightarrow> string \<Rightarrow> 'sk option" where
  "sk_of_hex L h =
     (case hexutil_Decode L h of
        Inl err \<Rightarrow> None
      | Inr bs \<Rightarrow> (case bls_SecretKeyFromBytes L bs of Inl err \<Rightarrow> None | Inr sk \<Rightarrow> Some sk))"

definition pk_of_hex :: "('sk, 'pk, 'sig, 'e) library \<Rightarrow> string \<Rightarrow> 'pk option" where
  "pk_of_hex L h =
     (case hexutil_Decode L h of
        Inl err \<Rightarrow> None
      | Inr bs \<Rightarrow> (case bls_PublicKeyFromBytes L bs of Inl err \<Rightarrow> None | Inr pk \<Rightarrow> Some pk))"

definition sig_of_hex :: "('sk, 'pk, 'sig, 'e) library \<Rightarrow> string \<Rightarrow> 'sig option" where
  "sig_of_hex L h =
     (case hexutil_Decode L h of
        Inl err \<Rightarrow> None
      | Inr bs \<Rightarrow> (case bls_SignatureFromBytes L bs of Inl err \<Rightarrow> None | Inr s \<Rightarrow> Some s))"

definition bytes_of_hex :: "('sk, 'pk, 'sig, 'e) library \<Rightarrow> string \<Rightarrow> byte list option" where
  "bytes_of_hex L h = (case hexutil_Decode L h of Inl err \<Rightarrow> None | Inr bs \<Rightarrow> Some bs)"

text \<open>
  The message codec in the words of the specification (section 4.1): up to 32 bytes of
  the message from offset 0, left-aligned, then zero bytes up to the width of 32. It is
  compared with \<open>msgBytes\<close>, which is what the source computes.
\<close>

definition encode_spec :: "string \<Rightarrow> byte list" where
  "encode_spec msg = take 32 (map of_char msg) @ replicate (32 - length msg) 0"

text \<open>A library result \<^verbatim>\<open>(bool, error)\<close> returned unchanged by the program.\<close>

definition returned :: "'e + bool \<Rightarrow> 'e error + bool" where
  "returned r = (case r of Inl err \<Rightarrow> Inl (ErrLibrary err) | Inr ok \<Rightarrow> Inr ok)"

section \<open>What the theorems assume of the library\<close>

text \<open>
  The properties of the two packages that some theorems below need. Each is a hypothesis
  of the theorems that use it, never an axiom; the instance \<open>toy\<close> of the next section
  satisfies all of them.
\<close>

text \<open>\<^verbatim>\<open>hexutil.Decode\<close> inverts \<^verbatim>\<open>hexutil.Encode\<close>.\<close>

definition hex_roundtrip :: "('sk, 'pk, 'sig, 'e) library \<Rightarrow> bool" where
  "hex_roundtrip L = (\<forall>bs. hexutil_Decode L (hexutil_Encode L bs) = Inr bs)"

text \<open>
  The secret key \<open>sk\<close> and its public key survive \<^verbatim>\<open>Marshal\<close> followed by
  \<^verbatim>\<open>...FromBytes\<close>.
\<close>

definition key_roundtrip :: "('sk, 'pk, 'sig, 'e) library \<Rightarrow> 'sk \<Rightarrow> bool" where
  "key_roundtrip L sk =
     (bls_SecretKeyFromBytes L (sk_Marshal L sk) = Inr sk \<and>
      bls_PublicKeyFromBytes L (pk_Marshal L (sk_PublicKey L sk)) = Inr (sk_PublicKey L sk))"

text \<open>
  Correctness of the scheme for the key \<open>sk\<close>: \<^verbatim>\<open>bls.VerifySignature\<close> accepts what
  \<^verbatim>\<open>sk.Sign\<close> produces on any 32-byte digest, under the public key of \<open>sk\<close>.
\<close>

definition sign_verifies :: "('sk, 'pk, 'sig, 'e) library \<Rightarrow> 'sk \<Rightarrow> bool" where
  "sign_verifies L sk =
     (\<forall>d. length d = 32 \<longrightarrow>
        bls_VerifySignature L (sig_Marshal L (sk_Sign L sk d)) d (sk_PublicKey L sk) = Inr True)"

text \<open>
  \<^verbatim>\<open>bls.VerifySignature\<close> returns an error only for signature bytes that
  \<^verbatim>\<open>bls.SignatureFromBytes\<close> rejects.
\<close>

definition verify_errors_only_on_bad_bytes :: "('sk, 'pk, 'sig, 'e) library \<Rightarrow> bool" where
  "verify_errors_only_on_bad_bytes L =
     (\<forall>bs d pk. isl (bls_VerifySignature L bs d pk) \<longrightarrow> isl (bls_SignatureFromBytes L bs))"

text \<open>
  \<^verbatim>\<open>bls.AggregateSignatures\<close> adds curve points, so its result does not depend on the
  order of its argument.
\<close>

definition aggregate_commutative :: "('sk, 'pk, 'sig, 'e) library \<Rightarrow> bool" where
  "aggregate_commutative L =
     (\<forall>xs ys. mset xs = mset ys \<longrightarrow> bls_AggregateSignatures L xs = bls_AggregateSignatures L ys)"

text \<open>
  \<^verbatim>\<open>bls.VerifyMultipleSignatures\<close> takes parallel sequences and accepts when every
  signature is valid for the digest and the public key at its own index.
\<close>

definition batch_verifies_each :: "('sk, 'pk, 'sig, 'e) library \<Rightarrow> bool" where
  "batch_verifies_each L =
     (\<forall>sigs msgs pks. sigs \<noteq> [] \<and> length sigs = length msgs \<and> length msgs = length pks \<longrightarrow>
        bls_VerifyMultipleSignatures L sigs msgs pks =
          Inr (\<forall>i < length sigs.
                 bls_VerifySignature L (sigs ! i) (msgs ! i) (pks ! i) = Inr True))"

section \<open>A small instance of the library\<close>

text \<open>
  Modelled from the spec: the hex codec of section 6 (\<^verbatim>\<open>0x\<close>-prefixed lowercase hex over
  the raw bytes), which is \<^verbatim>\<open>go-ethereum/common/hexutil\<close> and not in the repository.
  \<^verbatim>\<open>Decode\<close> rejects the empty string, a missing prefix, a character that is no hex digit
  and an odd number of digits.
\<close>

datatype lib_error =
    HexEmpty | HexMissingPrefix | HexSyntax | HexOddLength
  | BadLength | ZeroKey | InfiniteKey | NotInGroup | LengthMismatch | NoEntropy

definition hextable :: string where
  "hextable = ''0123456789abcdef''"

definition fromHexChar :: "char \<Rightarrow> byte option" where
  "fromHexChar c =
     (let n = (of_char c :: nat) in
      if 48 \<le> n \<and> n \<le> 57 then Some (of_nat (n - 48))
      else if 97 \<le> n \<and> n \<le> 102 then Some (of_nat (n - 87))
      else if 65 \<le> n \<and> n \<le> 70 then Some (of_nat (n - 55))
      else None)"

fun hex_DecodeString :: "string \<Rightarrow> lib_error + byte list" where
  "hex_DecodeString [] = Inr []"
| "hex_DecodeString [p] =
     (case fromHexChar p of None \<Rightarrow> Inl HexSyntax | Some a \<Rightarrow> Inl HexOddLength)"
| "hex_DecodeString (p # q # rest) =
     (case fromHexChar p of
        None \<Rightarrow> Inl HexSyntax
      | Some a \<Rightarrow>
          (case fromHexChar q of
             None \<Rightarrow> Inl HexSyntax
           | Some b \<Rightarrow>
               (case hex_DecodeString rest of
                  Inl err \<Rightarrow> Inl err
                | Inr bs \<Rightarrow> Inr ((push_bit 4 a OR b) # bs))))"

definition has0xPrefix :: "string \<Rightarrow> bool" where
  "has0xPrefix input =
     (length input \<ge> 2 \<and> input ! 0 = CHR ''0'' \<and> (input ! 1 = CHR ''x'' \<or> input ! 1 = CHR ''X''))"

definition Decode :: "string \<Rightarrow> lib_error + byte list" where
  "Decode input =
     (if length input = 0 then Inl HexEmpty
      else if \<not> has0xPrefix input then Inl HexMissingPrefix
      else hex_DecodeString (drop 2 input))"

definition hex_EncodeByte :: "byte \<Rightarrow> string" where
  "hex_EncodeByte v = [hextable ! unat (drop_bit 4 v), hextable ! unat (v AND 15)]"

definition Encode :: "byte list \<Rightarrow> string" where
  "Encode b = ''0x'' @ concat (map hex_EncodeByte b)"

text \<open>
  Modelled from the spec: the curve primitive provider of sections 2 and 4
  (\<^verbatim>\<open>prysm/v5/crypto/bls\<close>, not in the repository), over a group small enough to compute
  in. Both source groups are the integers modulo the prime 251 under addition, with
  generator \<open>toy_g\<close>; the pairing is multiplication modulo 251, so it is bilinear. A
  secret key is a scalar \<open>0 < sk < 251\<close>, its public key the point \<open>sk * toy_g\<close>, a
  signature on digest \<open>d\<close> the point \<open>sk * H d\<close>, and the verification predicate is
  \<open>e(signature, g) = e(H d, publicKey)\<close>. Every value is serialized as one byte.
\<close>

definition toy_q :: nat where
  "toy_q = 251"

definition toy_g :: nat where
  "toy_g = 6"

definition toy_H :: "byte list \<Rightarrow> nat" where
  "toy_H d = (1 + sum_list (map unat d)) mod toy_q"

definition toy_pairing :: "nat \<Rightarrow> nat \<Rightarrow> nat" where
  "toy_pairing a b = (a * b) mod toy_q"

definition toy_Marshal :: "nat \<Rightarrow> byte list" where
  "toy_Marshal x = [of_nat x]"

definition toy_SecretKeyFromBytes :: "byte list \<Rightarrow> lib_error + nat" where
  "toy_SecretKeyFromBytes bs =
     (case bs of
        [b] \<Rightarrow>
          (if unat b = 0 then Inl ZeroKey
           else if unat b \<ge> toy_q then Inl NotInGroup
           else Inr (unat b))
      | _ \<Rightarrow> Inl BadLength)"

definition toy_PublicKeyFromBytes :: "byte list \<Rightarrow> lib_error + nat" where
  "toy_PublicKeyFromBytes bs =
     (case bs of
        [b] \<Rightarrow>
          (if unat b = 0 then Inl InfiniteKey
           else if unat b \<ge> toy_q then Inl NotInGroup
           else Inr (unat b))
      | _ \<Rightarrow> Inl BadLength)"

definition toy_SignatureFromBytes :: "byte list \<Rightarrow> lib_error + nat" where
  "toy_SignatureFromBytes bs =
     (case bs of
        [b] \<Rightarrow> (if unat b \<ge> toy_q then Inl NotInGroup else Inr (unat b))
      | _ \<Rightarrow> Inl BadLength)"

definition toy_PublicKey :: "nat \<Rightarrow> nat" where
  "toy_PublicKey sk = (sk * toy_g) mod toy_q"

definition toy_Sign :: "nat \<Rightarrow> byte list \<Rightarrow> nat" where
  "toy_Sign sk d = (sk * toy_H d) mod toy_q"

definition toy_Verify :: "nat \<Rightarrow> nat \<Rightarrow> byte list \<Rightarrow> bool" where
  "toy_Verify s pk d = (toy_pairing s toy_g = toy_pairing (toy_H d) pk)"

text \<open>Point addition over the whole list; nil for the empty list.\<close>

definition toy_AggregateSignatures :: "nat list \<Rightarrow> nat option" where
  "toy_AggregateSignatures sigs =
     (if length sigs = 0 then None else Some (sum_list sigs mod toy_q))"

definition toy_VerifySignature :: "byte list \<Rightarrow> byte list \<Rightarrow> nat \<Rightarrow> lib_error + bool" where
  "toy_VerifySignature bs d pk =
     (case toy_SignatureFromBytes bs of
        Inl err \<Rightarrow> Inl err
      | Inr s \<Rightarrow> Inr (toy_Verify s pk d))"

text \<open>
  Batch verification of the triples \<open>(sigs ! i, msgs ! i, pubKeys ! i)\<close>: true when each
  signature is valid for its own digest and public key. (The library checks all triples
  in one pairing equation with random coefficients, which accepts a set with an invalid
  triple only with negligible probability.)
\<close>

definition toy_VerifyMultipleSignatures ::
  "byte list list \<Rightarrow> byte list list \<Rightarrow> nat list \<Rightarrow> lib_error + bool" where
  "toy_VerifyMultipleSignatures sigs msgs pubKeys =
     (if length sigs = 0 \<or> length pubKeys = 0 then Inr False
      else if length sigs = length pubKeys \<and> length sigs = length msgs
      then Inr (list_all (\<lambda>(bs, d, pk). toy_VerifySignature bs d pk = Inr True)
                  (zip sigs (zip msgs pubKeys)))
      else Inl LengthMismatch)"

definition toy :: "(nat, nat, nat, lib_error) library" where
  "toy =
     \<lparr> hexutil_Decode = Decode,
       hexutil_Encode = Encode,
       bls_SecretKeyFromBytes = toy_SecretKeyFromBytes,
       bls_PublicKeyFromBytes = toy_PublicKeyFromBytes,
       bls_SignatureFromBytes = toy_SignatureFromBytes,
       sk_Marshal = toy_Marshal,
       sk_PublicKey = toy_PublicKey,
       sk_Sign = toy_Sign,
       pk_Marshal = toy_Marshal,
       sig_Marshal = toy_Marshal,
       bls_AggregateSignatures = toy_AggregateSignatures,
       bls_VerifySignature = toy_VerifySignature,
       bls_VerifyMultipleSignatures = toy_VerifyMultipleSignatures \<rparr>"

section \<open>The message digest\<close>

lemma msgBytes_eq:
  "msgBytes msg = take 32 (map of_char msg) @ replicate (32 - length msg) 0"
  by (simp add: msgBytes_def go_copy_def Let_def min_def)

lemma length_msgBytes: "length (msgBytes msg) = 32"
  by (simp add: msgBytes_eq)

lemma msgBytes_nth:
  "i < 32 \<Longrightarrow> msgBytes msg ! i = (if i < length msg then of_char (msg ! i) else 0)"
  by (simp add: msgBytes_eq nth_append)

lemma msgBytes_take: "msgBytes (take 32 msg) = msgBytes msg"
  by (simp add: msgBytes_eq take_map min_def)

lemma msgBytes_long: "32 \<le> length msg \<Longrightarrow> msgBytes msg = map of_char (take 32 msg)"
  by (simp add: msgBytes_eq take_map)

section \<open>The two decoding loops\<close>

lemma AggregateSignatures_loop_wf:
  "\<forall>h \<in> set hs. sig_of_hex L h \<noteq> None \<Longrightarrow>
   AggregateSignatures_loop L hs sigs = Inr (sigs @ map (\<lambda>h. the (sig_of_hex L h)) hs)"
  by (induction hs arbitrary: sigs) (auto simp: sig_of_hex_def split: sum.splits)

lemma VerifyAggregateSignature_loop_wf:
  "\<forall>h \<in> set hs. pk_of_hex L h \<noteq> None \<Longrightarrow> sig_of_hex L s \<noteq> None \<Longrightarrow>
   VerifyAggregateSignature_loop L s msg hs (xMsgs, xPKs, sigs) =
     Inr (xMsgs @ replicate (length hs) (msgBytes msg),
          xPKs @ map (\<lambda>h. the (pk_of_hex L h)) hs,
          sigs @ replicate (length hs) (the (sig_of_hex L s)))"
proof (induction hs arbitrary: xMsgs xPKs sigs)
  case Nil
  then show ?case by simp
next
  case (Cons h hs)
  from Cons.prems obtain pb pk where pk: "hexutil_Decode L h = Inr pb"
    "bls_PublicKeyFromBytes L pb = Inr pk"
    by (auto simp: pk_of_hex_def split: sum.splits)
  from Cons.prems obtain sb sg where sg: "hexutil_Decode L s = Inr sb"
    "bls_SignatureFromBytes L sb = Inr sg"
    by (auto simp: sig_of_hex_def split: sum.splits)
  have "\<forall>h \<in> set hs. pk_of_hex L h \<noteq> None"
    using Cons.prems by simp
  then show ?case
    using Cons.IH Cons.prems(2) pk sg
    by (simp add: pk_of_hex_def sig_of_hex_def replicate_append_same Let_def)
qed

lemma VerifyAggregateSignature_wf:
  assumes "\<forall>h \<in> set pubKeyHexes. pk_of_hex L h \<noteq> None"
    and "sig_of_hex L aggregateSigHex = Some aggSig"
  shows "VerifyAggregateSignature L aggregateSigHex msg pubKeyHexes =
     returned (bls_VerifyMultipleSignatures L
       (replicate (length pubKeyHexes) (sig_Marshal L aggSig))
       (replicate (length pubKeyHexes) (msgBytes msg))
       (map (\<lambda>h. the (pk_of_hex L h)) pubKeyHexes))"
  using assms
  by (simp add: VerifyAggregateSignature_def VerifyAggregateSignature_loop_wf returned_def)

section \<open>The instance satisfies the assumptions\<close>

lemma fromHexChar_hextable_all:
  "\<forall>n \<in> set [0..<16]. fromHexChar (hextable ! n) = Some (of_nat n)"
  by (simp add: upt_rec fromHexChar_def hextable_def)

lemma fromHexChar_hextable: "n < 16 \<Longrightarrow> fromHexChar (hextable ! n) = Some (of_nat n)"
  using fromHexChar_hextable_all by simp

lemma high_nibble_less: "unat (drop_bit 4 (v :: byte)) < 16"
proof -
  have "unat (drop_bit 4 v) = unat v div 16"
    by (simp add: drop_bit_eq_div unat_div)
  moreover have "unat v < 256"
    using unsigned_less [of v] by simp
  ultimately show ?thesis by simp
qed

lemma low_nibble_less: "unat ((v :: byte) AND 15) < 16"
proof -
  have "v AND 15 = take_bit 4 v"
    by (simp add: take_bit_eq_mask mask_eq_exp_minus_1)
  then have "unat (v AND 15) = unat v mod 16"
    by (simp add: take_bit_eq_mod unat_mod)
  then show ?thesis by simp
qed

lemma byte_of_nibbles: "push_bit 4 (drop_bit 4 v) OR (v AND 15) = (v :: byte)"
proof -
  have "(15 :: byte) = mask 4" by (simp add: mask_eq_exp_minus_1)
  then show ?thesis
    by (simp add: bit_eq_iff bit_simps) (auto simp: bit_simps)
qed

lemma hex_DecodeString_EncodeByte:
  "hex_DecodeString (hex_EncodeByte v @ rest) =
     (case hex_DecodeString rest of Inl err \<Rightarrow> Inl err | Inr bs \<Rightarrow> Inr (v # bs))"
  by (simp add: hex_EncodeByte_def fromHexChar_hextable high_nibble_less low_nibble_less
      byte_of_nibbles split: sum.splits)

lemma hex_DecodeString_concat: "hex_DecodeString (concat (map hex_EncodeByte bs)) = Inr bs"
  by (induction bs) (simp_all add: hex_DecodeString_EncodeByte)

lemma Decode_Encode: "Decode (Encode bs) = Inr bs"
  by (simp add: Decode_def Encode_def has0xPrefix_def hex_DecodeString_concat)

lemma hex_roundtrip_toy: "hex_roundtrip toy"
  by (simp add: hex_roundtrip_def toy_def Decode_Encode)

lemma unat_toy_byte: "x < 256 \<Longrightarrow> unat (of_nat x :: byte) = x"
  by (simp add: unat_of_nat)

lemma toy_Sign_less: "toy_Sign sk d < 256"
proof -
  have "toy_Sign sk d < toy_q"
    by (simp add: toy_Sign_def toy_q_def)
  then show ?thesis by (simp add: toy_q_def)
qed

lemma toy_SignatureFromBytes_Sign:
  "toy_SignatureFromBytes (toy_Marshal (toy_Sign sk d)) = Inr (toy_Sign sk d)"
proof -
  have "toy_Sign sk d < toy_q"
    by (simp add: toy_Sign_def toy_q_def)
  then show ?thesis
    by (simp add: toy_SignatureFromBytes_def toy_Marshal_def unat_toy_byte toy_Sign_less)
qed

text \<open>Bilinearity of the pairing: a signature verifies under the signer's public key.\<close>

lemma toy_Verify_Sign: "toy_Verify (toy_Sign sk d) (toy_PublicKey sk) d"
  by (simp add: toy_Verify_def toy_Sign_def toy_PublicKey_def toy_pairing_def
      mod_mult_left_eq mod_mult_right_eq ac_simps)

lemma sign_verifies_toy: "sign_verifies toy sk"
  by (simp add: sign_verifies_def toy_def toy_VerifySignature_def toy_SignatureFromBytes_Sign
      toy_Verify_Sign)

lemma verify_errors_only_on_bad_bytes_toy: "verify_errors_only_on_bad_bytes toy"
proof -
  have "isl (toy_VerifySignature bs d pk) \<longrightarrow> isl (toy_SignatureFromBytes bs)" for bs d pk
    by (cases "toy_SignatureFromBytes bs") (simp_all add: toy_VerifySignature_def)
  then show ?thesis
    by (simp add: verify_errors_only_on_bad_bytes_def toy_def)
qed

lemma aggregate_commutative_toy: "aggregate_commutative toy"
proof -
  have perm: "toy_AggregateSignatures xs = toy_AggregateSignatures ys" if "mset xs = mset ys"
    for xs ys :: "nat list"
  proof -
    have "sum_list xs = sum_list ys"
      using that by (metis sum_mset_sum_list)
    moreover have "length xs = length ys"
      using that by (metis size_mset)
    ultimately show ?thesis
      by (simp add: toy_AggregateSignatures_def)
  qed
  show ?thesis
    unfolding aggregate_commutative_def
  proof (intro allI impI)
    fix xs ys :: "nat list"
    assume "mset xs = mset ys"
    then have "toy_AggregateSignatures xs = toy_AggregateSignatures ys"
      by (rule perm)
    then show "bls_AggregateSignatures toy xs = bls_AggregateSignatures toy ys"
      by (simp add: toy_def)
  qed
qed

lemma batch_verifies_each_toy: "batch_verifies_each toy"
proof -
  have "toy_VerifyMultipleSignatures sigs msgs pks =
      Inr (\<forall>i < length sigs. toy_VerifySignature (sigs ! i) (msgs ! i) (pks ! i) = Inr True)"
    if "sigs \<noteq> []" "length sigs = length msgs" "length msgs = length pks" for sigs msgs pks
    using that by (auto simp: toy_VerifyMultipleSignatures_def list_all_length)
  then show ?thesis
    by (simp add: batch_verifies_each_def toy_def)
qed

lemma key_roundtrip_toy_3: "key_roundtrip toy 3"
  by (simp add: key_roundtrip_def toy_def toy_SecretKeyFromBytes_def toy_PublicKeyFromBytes_def
      toy_Marshal_def toy_PublicKey_def toy_q_def toy_g_def)

section \<open>Runs of the program on the instance\<close>

lemmas toy_eval = toy_def Decode_def Encode_def has0xPrefix_def hex_EncodeByte_def hextable_def
  fromHexChar_def toy_SecretKeyFromBytes_def toy_PublicKeyFromBytes_def
  toy_SignatureFromBytes_def toy_Marshal_def toy_PublicKey_def toy_Sign_def toy_Verify_def
  toy_pairing_def toy_H_def toy_q_def toy_g_def toy_AggregateSignatures_def
  toy_VerifySignature_def toy_VerifyMultipleSignatures_def
  msgBytes_def go_copy_def returned_def sum_list_replicate
  sk_of_hex_def pk_of_hex_def sig_of_hex_def bytes_of_hex_def

text \<open>The key pairs of the secret keys 3 and 5, and their signatures on the message of \<^verbatim>\<open>main\<close>.\<close>

lemma toy_keys:
  "GenerateKeyPair toy (Inr 3) = Inr (''0x03'', ''0x12'')"
  "GenerateKeyPair toy (Inr 5) = Inr (''0x05'', ''0x1e'')"
  by (simp_all add: GenerateKeyPair_def toy_eval)

lemma toy_sign:
  "GenerateSignature toy ''0x03'' ''test message'' = Inr ''0x98''"
  "GenerateSignature toy ''0x05'' ''test message'' = Inr ''0x56''"
  by (simp_all add: GenerateSignature_def toy_eval)

lemma toy_verify:
  "VerifySignature toy ''0x12'' ''0x98'' ''test message'' = Inr True"
  "VerifySignature toy ''0x1e'' ''0x56'' ''test message'' = Inr True"
  "VerifySignature toy ''0x1e'' ''0x98'' ''test message'' = Inr False"
  "VerifySignature toy ''0x12'' ''0x98'' ''test messagf'' = Inr False"
  by (simp_all add: VerifySignature_def toy_eval)

lemma toy_aggregate:
  "AggregateSignatures toy [''0x98'', ''0x56''] = Inr ''0xee''"
  "AggregateSignatures toy [''0x98'', ''0x98'', ''0x98'', ''0x98'', ''0x98''] = Inr ''0x07''"
  by (simp_all add: AggregateSignatures_def toy_eval)

lemma toy_verify_aggregate:
  "VerifyAggregateSignature toy ''0xee'' ''test message'' [''0x12'', ''0x1e''] = Inr False"
  "VerifyAggregateSignature toy ''0x07'' ''test message''
     [''0x12'', ''0x12'', ''0x12'', ''0x12'', ''0x12''] = Inr False"
  "VerifyAggregateSignature toy ''0x98'' ''test message'' [''0x12''] = Inr True"
  by (simp_all add: VerifyAggregateSignature_def toy_eval)

section \<open>Empty input\<close>

text \<open>
  C1, as the specification states it: for the empty sequence, \<open>AggregateSignatures []\<close>
  fails with an empty-input error, and so does \<open>VerifyAggregateSignature sig m []\<close>;
  neither returns an identity element or a verdict.

  The source has no emptiness check and no such error value. With no element, neither
  loop runs, so nothing is decoded: \<open>VerifyAggregateSignature\<close> returns whatever the
  library's batch verification returns on three empty lists, and \<open>AggregateSignatures\<close>
  hands the empty list to the library's aggregation and marshals the result.
\<close>

theorem empty_input_reaches_library:
  "VerifyAggregateSignature L aggregateSigHex msg [] =
     returned (bls_VerifyMultipleSignatures L [] [] []) \<and>
   AggregateSignatures L [] =
     (case bls_AggregateSignatures L [] of
        None \<Rightarrow> Inl PanicNilSignature
      | Some aggSig \<Rightarrow> Inr (hexutil_Encode L (sig_Marshal L aggSig)))"
  by (simp add: VerifyAggregateSignature_def AggregateSignatures_def returned_def)

theorem empty_input_reaches_library_witness:
  "VerifyAggregateSignature toy ''not hex'' ''any message'' [] =
     returned (toy_VerifyMultipleSignatures [] [] []) \<and>
   AggregateSignatures toy [] = Inl PanicNilSignature"
  using empty_input_reaches_library [of toy "''not hex''" "''any message''"]
  by (simp add: toy_def toy_AggregateSignatures_def)

text \<open>
  On the instance, verification against no public key returns the verdict \<open>False\<close>
  with no error, and aggregation of no signature dereferences the nil result.
\<close>

theorem empty_input_counterexample:
  "VerifyAggregateSignature toy ''0x98'' ''test message'' [] = Inr False \<and>
   AggregateSignatures toy [] = Inl PanicNilSignature"
  by (simp add: VerifyAggregateSignature_def AggregateSignatures_def toy_eval)

section \<open>Aggregate verification of one message under many keys\<close>

text \<open>
  C2: for secret keys \<open>k1..kn\<close> with public keys \<open>p1..pn\<close> and a message \<open>m\<close> of at most
  32 bytes, the aggregate of the signatures \<open>GenerateSignature ki m\<close> verifies:
  \<open>VerifyAggregateSignature aggSig m [p1..pn]\<close> returns true.

  The source passes \<open>n\<close> copies of the aggregate signature to the library's batch
  verification, which checks the signature at each index against the public key at that
  index. The first two runs below are the scenario of \<^verbatim>\<open>main\<close> (one key pair five times,
  message \<^verbatim>\<open>test message\<close>) and the one of two signers: every single signature
  verifies, the aggregate is computed, and aggregate verification returns \<open>False\<close>.
\<close>

theorem VerifyAggregateSignature_rejects_honest_aggregate:
  "GenerateKeyPair toy (Inr 3) = Inr (''0x03'', ''0x12'') \<and>
   GenerateKeyPair toy (Inr 5) = Inr (''0x05'', ''0x1e'') \<and>
   GenerateSignature toy ''0x03'' ''test message'' = Inr ''0x98'' \<and>
   GenerateSignature toy ''0x05'' ''test message'' = Inr ''0x56'' \<and>
   VerifySignature toy ''0x12'' ''0x98'' ''test message'' = Inr True \<and>
   VerifySignature toy ''0x1e'' ''0x56'' ''test message'' = Inr True \<and>
   AggregateSignatures toy [''0x98'', ''0x98'', ''0x98'', ''0x98'', ''0x98''] = Inr ''0x07'' \<and>
   VerifyAggregateSignature toy ''0x07'' ''test message''
     [''0x12'', ''0x12'', ''0x12'', ''0x12'', ''0x12''] = Inr False \<and>
   AggregateSignatures toy [''0x98'', ''0x56''] = Inr ''0xee'' \<and>
   VerifyAggregateSignature toy ''0xee'' ''test message'' [''0x12'', ''0x1e''] = Inr False"
  by (simp add: toy_keys toy_sign toy_verify toy_aggregate toy_verify_aggregate)

text \<open>
  For every library whose batch verification checks each index on its own, and
  well-formed input, \<open>VerifyAggregateSignature\<close> accepts exactly when the aggregate is by
  itself a valid signature of the message under each of the public keys.
\<close>

lemma VerifyAggregateSignature_checks_each_key:
  assumes "batch_verifies_each L"
    and "pubKeyHexes \<noteq> []"
    and "\<forall>h \<in> set pubKeyHexes. pk_of_hex L h \<noteq> None"
    and "sig_of_hex L aggregateSigHex = Some aggSig"
  shows "VerifyAggregateSignature L aggregateSigHex msg pubKeyHexes =
     Inr (\<forall>h \<in> set pubKeyHexes.
            bls_VerifySignature L (sig_Marshal L aggSig) (msgBytes msg) (the (pk_of_hex L h)) =
              Inr True)"
proof -
  let ?n = "length pubKeyHexes"
  let ?sigs = "replicate ?n (sig_Marshal L aggSig)"
  let ?msgs = "replicate ?n (msgBytes msg)"
  let ?pks = "map (\<lambda>h. the (pk_of_hex L h)) pubKeyHexes"
  have "?sigs \<noteq> []" "length ?sigs = length ?msgs" "length ?msgs = length ?pks"
    using assms(2) by simp_all
  then have "bls_VerifyMultipleSignatures L ?sigs ?msgs ?pks =
      Inr (\<forall>i < length ?sigs.
             bls_VerifySignature L (?sigs ! i) (?msgs ! i) (?pks ! i) = Inr True)"
    using assms(1) unfolding batch_verifies_each_def by blast
  also have "(\<forall>i < length ?sigs.
             bls_VerifySignature L (?sigs ! i) (?msgs ! i) (?pks ! i) = Inr True) =
      (\<forall>h \<in> set pubKeyHexes.
            bls_VerifySignature L (sig_Marshal L aggSig) (msgBytes msg) (the (pk_of_hex L h)) =
              Inr True)"
    by (simp add: all_set_conv_all_nth)
  finally show ?thesis
    using VerifyAggregateSignature_wf [OF assms(3,4), of msg] by (simp add: returned_def)
qed

text \<open>
  On the instance the aggregate of the keys 3 and 5 is no signature of key 3 alone: the
  pairing equation of key 3 fails for it.
\<close>

lemma aggregate_is_no_single_signature:
  "batch_verifies_each toy \<and>
   sig_of_hex toy ''0xee'' = Some 238 \<and>
   pk_of_hex toy ''0x12'' = Some 18 \<and>
   bls_VerifySignature toy (sig_Marshal toy 238) (msgBytes ''test message'') 18 = Inr False"
  by (simp add: batch_verifies_each_toy) (simp add: toy_eval)

section \<open>The length check of single verification\<close>

text \<open>
  C3: \<open>VerifySignature\<close> rejects every message longer than 32 bytes with
  \<open>ErrInvalidMsgLength\<close>, whatever the other arguments are (nothing is decoded before
  the check). A message of exactly 32 bytes passes the check: no length error is
  returned, and with a decodable signature and public key the result is the library's
  verdict on the 32 bytes of the message themselves.
\<close>

theorem VerifySignature_length_boundary:
  "(length msg > 32 \<longrightarrow> VerifySignature L pubKeyHex sigHex msg = Inl ErrInvalidMsgLength) \<and>
   (length msg = 32 \<longrightarrow>
      VerifySignature L pubKeyHex sigHex msg \<noteq> Inl ErrInvalidMsgLength \<and>
      (bytes_of_hex L sigHex = Some sigBytes \<and> pk_of_hex L pubKeyHex = Some pubKey \<longrightarrow>
         VerifySignature L pubKeyHex sigHex msg =
           returned (bls_VerifySignature L sigBytes (map of_char msg) pubKey)))"
  by (auto simp: VerifySignature_def returned_def bytes_of_hex_def pk_of_hex_def msgBytes_long
      split: sum.splits)

theorem VerifySignature_length_boundary_witness:
  "length ''0123456789abcdef0123456789abcdefg'' > 32 \<and>
   VerifySignature toy ''0x12'' ''0xd1'' ''0123456789abcdef0123456789abcdefg'' =
     Inl ErrInvalidMsgLength \<and>
   length ''0123456789abcdef0123456789abcdef'' = 32 \<and>
   bytes_of_hex toy ''0xd1'' = Some [209] \<and>
   pk_of_hex toy ''0x12'' = Some 18 \<and>
   VerifySignature toy ''0x12'' ''0xd1'' ''0123456789abcdef0123456789abcdef'' =
     returned (toy_VerifySignature [209] (map of_char ''0123456789abcdef0123456789abcdef'') 18) \<and>
   VerifySignature toy ''0x12'' ''0xd1'' ''0123456789abcdef0123456789abcdef'' = Inr True"
proof -
  have long: "length ''0123456789abcdef0123456789abcdefg'' > 32"
    and exact: "length ''0123456789abcdef0123456789abcdef'' = 32"
    by simp_all
  have wf: "bytes_of_hex toy ''0xd1'' = Some [209]" "pk_of_hex toy ''0x12'' = Some 18"
    by (simp_all add: toy_eval)
  have run: "VerifySignature toy ''0x12'' ''0xd1'' ''0123456789abcdef0123456789abcdef'' = Inr True"
    by (simp add: VerifySignature_def toy_eval)
  show ?thesis
    using VerifySignature_length_boundary
      [of "''0123456789abcdef0123456789abcdefg''" toy "''0x12''" "''0xd1''"]
      VerifySignature_length_boundary
      [of "''0123456789abcdef0123456789abcdef''" toy "''0x12''" "''0xd1''" "[209]" 18]
      long exact wf run
    by (simp add: toy_def)
qed

section \<open>A wrong signature is a verdict, not an error\<close>

text \<open>
  C4: for a message of at most 32 bytes, a signature string that decodes and
  deserializes and a public-key string that decodes and deserializes,
  \<open>VerifySignature\<close> returns no error: its result is \<open>Inr\<close> of a verdict, which is true
  exactly when the library accepts the triple, so a signature that is invalid for the
  public key and message gives \<open>Inr False\<close>. It needs of the library that its single
  verification fails only on signature bytes that do not deserialize.
\<close>

theorem VerifySignature_false_is_not_error:
  assumes "verify_errors_only_on_bad_bytes L"
    and "length msg \<le> 32"
    and "bytes_of_hex L sigHex = Some sigBytes"
    and "sig_of_hex L sigHex \<noteq> None"
    and "pk_of_hex L pubKeyHex = Some pubKey"
  shows "VerifySignature L pubKeyHex sigHex msg =
     Inr (bls_VerifySignature L sigBytes (msgBytes msg) pubKey = Inr True)"
proof -
  have dec: "hexutil_Decode L sigHex = Inr sigBytes"
    using assms(3) by (simp add: bytes_of_hex_def split: sum.splits)
  then have "\<not> isl (bls_SignatureFromBytes L sigBytes)"
    using assms(4) by (simp add: sig_of_hex_def split: sum.splits)
  then have "\<not> isl (bls_VerifySignature L sigBytes (msgBytes msg) pubKey)"
    using assms(1) by (auto simp: verify_errors_only_on_bad_bytes_def)
  then obtain ok where ok: "bls_VerifySignature L sigBytes (msgBytes msg) pubKey = Inr ok"
    by (cases "bls_VerifySignature L sigBytes (msgBytes msg) pubKey") simp_all
  obtain pb where pk: "hexutil_Decode L pubKeyHex = Inr pb"
    "bls_PublicKeyFromBytes L pb = Inr pubKey"
    using assms(5) by (auto simp: pk_of_hex_def split: sum.splits)
  show ?thesis
    using assms(2) dec pk ok by (simp add: VerifySignature_def)
qed

text \<open>
  The signature of key 3 on \<^verbatim>\<open>test message\<close> against the public key of key 5, and
  against its own public key with another message.
\<close>

theorem VerifySignature_false_is_not_error_witness:
  "verify_errors_only_on_bad_bytes toy \<and>
   length ''test message'' \<le> 32 \<and>
   bytes_of_hex toy ''0x98'' = Some [152] \<and>
   sig_of_hex toy ''0x98'' \<noteq> None \<and>
   pk_of_hex toy ''0x1e'' = Some 30 \<and>
   pk_of_hex toy ''0x12'' = Some 18 \<and>
   VerifySignature toy ''0x1e'' ''0x98'' ''test message'' = Inr False \<and>
   VerifySignature toy ''0x12'' ''0x98'' ''test messagf'' = Inr False"
proof -
  have len: "length ''test message'' \<le> 32" "length ''test messagf'' \<le> 32"
    by simp_all
  have wf: "bytes_of_hex toy ''0x98'' = Some [152]" "sig_of_hex toy ''0x98'' \<noteq> None"
    "pk_of_hex toy ''0x1e'' = Some 30" "pk_of_hex toy ''0x12'' = Some 18"
    by (simp_all add: toy_eval)
  have verdict:
    "(bls_VerifySignature toy [152] (msgBytes ''test message'') 30 = Inr True) = False"
    "(bls_VerifySignature toy [152] (msgBytes ''test messagf'') 18 = Inr True) = False"
    by (simp_all add: toy_eval)
  show ?thesis
    using VerifySignature_false_is_not_error
      [OF verify_errors_only_on_bad_bytes_toy len(1) wf(1) wf(2) wf(3)]
      VerifySignature_false_is_not_error
      [OF verify_errors_only_on_bad_bytes_toy len(2) wf(1) wf(2) wf(4)]
      verify_errors_only_on_bad_bytes_toy wf
    by (simp add: verdict)
qed

section \<open>Signing then verifying\<close>

text \<open>
  C5: for every key pair \<open>(skHex, pkHex)\<close> that \<open>GenerateKeyPair\<close> returns and every
  message of at most 32 bytes, \<open>GenerateSignature skHex msg\<close> returns a signature and
  \<open>VerifySignature pkHex\<close> of that signature and message returns true. It needs of the
  library that hex decoding inverts encoding, that the key and its public key survive
  marshalling, and that the scheme is correct for the key.
\<close>

theorem sign_verify_soundness:
  assumes "hex_roundtrip L" and "key_roundtrip L sk" and "sign_verifies L sk"
    and "GenerateKeyPair L (Inr sk) = Inr (skHex, pkHex)"
    and "length msg \<le> 32"
  shows "\<exists>sigHex. GenerateSignature L skHex msg = Inr sigHex \<and>
           VerifySignature L pkHex sigHex msg = Inr True"
proof -
  have hex: "hexutil_Decode L (hexutil_Encode L bs) = Inr bs" for bs
    using assms(1) by (simp add: hex_roundtrip_def)
  have skHex: "skHex = hexutil_Encode L (sk_Marshal L sk)"
    and pkHex: "pkHex = hexutil_Encode L (pk_Marshal L (sk_PublicKey L sk))"
    using assms(4) by (simp_all add: GenerateKeyPair_def)
  have sk: "bls_SecretKeyFromBytes L (sk_Marshal L sk) = Inr sk"
    and pk: "bls_PublicKeyFromBytes L (pk_Marshal L (sk_PublicKey L sk)) = Inr (sk_PublicKey L sk)"
    using assms(2) by (simp_all add: key_roundtrip_def)
  let ?sig = "sk_Sign L sk (msgBytes msg)"
  have signed: "GenerateSignature L skHex msg = Inr (hexutil_Encode L (sig_Marshal L ?sig))"
    by (simp add: GenerateSignature_def skHex hex sk)
  have "bls_VerifySignature L (sig_Marshal L ?sig) (msgBytes msg) (sk_PublicKey L sk) = Inr True"
    using assms(3) by (simp add: sign_verifies_def length_msgBytes)
  then have "VerifySignature L pkHex (hexutil_Encode L (sig_Marshal L ?sig)) msg = Inr True"
    using assms(5) by (simp add: VerifySignature_def pkHex hex pk)
  with signed show ?thesis by blast
qed

theorem sign_verify_soundness_witness:
  "hex_roundtrip toy \<and> key_roundtrip toy 3 \<and> sign_verifies toy 3 \<and>
   GenerateKeyPair toy (Inr 3) = Inr (''0x03'', ''0x12'') \<and>
   length ''test message'' \<le> 32 \<and>
   (\<exists>sigHex. GenerateSignature toy ''0x03'' ''test message'' = Inr sigHex \<and>
      VerifySignature toy ''0x12'' sigHex ''test message'' = Inr True)"
proof -
  have len: "length ''test message'' \<le> 32"
    by simp
  show ?thesis
    using sign_verify_soundness
      [OF hex_roundtrip_toy key_roundtrip_toy_3 sign_verifies_toy toy_keys(1) len]
      hex_roundtrip_toy key_roundtrip_toy_3 sign_verifies_toy toy_keys(1) len
    by simp
qed

section \<open>Aggregation does not depend on the order\<close>

text \<open>
  C6: for a non-empty list of signature strings that all decode and deserialize, and
  any permutation of it, \<open>AggregateSignatures\<close> returns the same result, so the same
  serialized aggregate. It needs of the library that its aggregation (point addition)
  does not depend on the order of the points.
\<close>

theorem AggregateSignatures_order_independent:
  assumes "aggregate_commutative L"
    and "sigHexes \<noteq> []"
    and "\<forall>h \<in> set sigHexes. sig_of_hex L h \<noteq> None"
    and "mset permuted = mset sigHexes"
  shows "AggregateSignatures L permuted = AggregateSignatures L sigHexes"
proof -
  let ?f = "\<lambda>h. the (sig_of_hex L h)"
  have "set permuted = set sigHexes"
    using assms(4) by (rule mset_eq_setD)
  then have wf: "\<forall>h \<in> set permuted. sig_of_hex L h \<noteq> None"
    using assms(3) by simp
  have "mset (map ?f permuted) = mset (map ?f sigHexes)"
    using assms(4) by (metis mset_map)
  then have "bls_AggregateSignatures L (map ?f permuted) = bls_AggregateSignatures L (map ?f sigHexes)"
    using assms(1) by (simp add: aggregate_commutative_def)
  then show ?thesis
    by (simp add: AggregateSignatures_def AggregateSignatures_loop_wf [OF wf]
        AggregateSignatures_loop_wf [OF assms(3)])
qed

text \<open>The signatures of the keys 3, 5 and 7 on \<^verbatim>\<open>test message\<close>, in two orders.\<close>

theorem AggregateSignatures_order_independent_witness:
  "aggregate_commutative toy \<and>
   [''0x98'', ''0x56'', ''0x14''] \<noteq> [] \<and>
   sig_of_hex toy ''0x98'' \<noteq> None \<and> sig_of_hex toy ''0x56'' \<noteq> None \<and>
   sig_of_hex toy ''0x14'' \<noteq> None \<and>
   mset [''0x14'', ''0x98'', ''0x56''] = mset [''0x98'', ''0x56'', ''0x14''] \<and>
   AggregateSignatures toy [''0x14'', ''0x98'', ''0x56''] =
     AggregateSignatures toy [''0x98'', ''0x56'', ''0x14''] \<and>
   AggregateSignatures toy [''0x98'', ''0x56'', ''0x14''] = Inr ''0x07''"
proof -
  have wf: "sig_of_hex toy ''0x98'' \<noteq> None" "sig_of_hex toy ''0x56'' \<noteq> None"
    "sig_of_hex toy ''0x14'' \<noteq> None"
    by (simp_all add: toy_eval)
  then have all: "\<forall>h \<in> set [''0x98'', ''0x56'', ''0x14'']. sig_of_hex toy h \<noteq> None"
    by simp
  have perm: "mset [''0x14'', ''0x98'', ''0x56''] = mset [''0x98'', ''0x56'', ''0x14'']"
    by simp
  have ne: "[''0x98'', ''0x56'', ''0x14''] \<noteq> []"
    by simp
  have run: "AggregateSignatures toy [''0x98'', ''0x56'', ''0x14''] = Inr ''0x07''"
    by (simp add: AggregateSignatures_def toy_eval)
  show ?thesis
    using AggregateSignatures_order_independent [OF aggregate_commutative_toy ne all perm]
      aggregate_commutative_toy wf perm run
    by simp
qed

section \<open>The message encoding of the signing path\<close>

text \<open>
  C7: for a message of any length, the digest that \<open>GenerateSignature\<close> hands to the
  library's signing is 32 bytes long and holds the bytes of the message from offset 0:
  position \<open>i\<close> is byte \<open>i\<close> of the message where the message has one and zero after its
  end, so a longer message is cut to its first 32 bytes. No length is an error: with a
  secret key that decodes, the signature is returned.
\<close>

theorem GenerateSignature_message_encoding:
  assumes "sk_of_hex L privKeyHex = Some sk"
  shows "GenerateSignature L privKeyHex msg =
           Inr (hexutil_Encode L (sig_Marshal L (sk_Sign L sk (encode_spec msg)))) \<and>
         msgBytes msg = encode_spec msg \<and>
         length (encode_spec msg) = 32 \<and>
         (\<forall>i < 32. encode_spec msg ! i = (if i < length msg then of_char (msg ! i) else 0))"
proof -
  have eq: "msgBytes msg = encode_spec msg"
    by (simp add: msgBytes_eq encode_spec_def)
  obtain bs where "hexutil_Decode L privKeyHex = Inr bs" "bls_SecretKeyFromBytes L bs = Inr sk"
    using assms by (auto simp: sk_of_hex_def split: sum.splits)
  then have "GenerateSignature L privKeyHex msg =
      Inr (hexutil_Encode L (sig_Marshal L (sk_Sign L sk (encode_spec msg))))"
    by (simp add: GenerateSignature_def eq)
  moreover have "length (encode_spec msg) = 32"
    using length_msgBytes [of msg] by (simp add: eq)
  moreover have "\<forall>i < 32. encode_spec msg ! i = (if i < length msg then of_char (msg ! i) else 0)"
    using msgBytes_nth [of _ msg] by (simp add: eq)
  ultimately show ?thesis using eq by simp
qed

text \<open>
  A message of 12 bytes and one of 41 bytes: the first is padded with 20 zero bytes,
  the second is signed as its first 32 bytes are.
\<close>

theorem GenerateSignature_message_encoding_witness:
  "sk_of_hex toy ''0x03'' = Some 3 \<and>
   encode_spec ''test message'' =
     [116, 101, 115, 116, 32, 109, 101, 115, 115, 97, 103, 101] @ replicate 20 0 \<and>
   GenerateSignature toy ''0x03'' ''test message'' = Inr ''0x98'' \<and>
   encode_spec ''0123456789abcdef0123456789abcdef and more'' =
     map of_char ''0123456789abcdef0123456789abcdef'' \<and>
   GenerateSignature toy ''0x03'' ''0123456789abcdef0123456789abcdef and more'' =
     GenerateSignature toy ''0x03'' ''0123456789abcdef0123456789abcdef'' \<and>
   GenerateSignature toy ''0x03'' ''0123456789abcdef0123456789abcdef and more'' = Inr ''0xd1''"
proof -
  have key: "sk_of_hex toy ''0x03'' = Some 3"
    by (simp add: toy_eval)
  have short: "encode_spec ''test message'' =
      [116, 101, 115, 116, 32, 109, 101, 115, 115, 97, 103, 101] @ replicate 20 0"
    by (simp add: encode_spec_def)
  have long: "encode_spec ''0123456789abcdef0123456789abcdef and more'' =
      map of_char ''0123456789abcdef0123456789abcdef''"
    "encode_spec ''0123456789abcdef0123456789abcdef'' =
      map of_char ''0123456789abcdef0123456789abcdef''"
    by (simp_all add: encode_spec_def)
  have run: "GenerateSignature toy ''0x03'' ''0123456789abcdef0123456789abcdef and more'' =
      Inr ''0xd1''"
    by (simp add: GenerateSignature_def toy_eval)
  show ?thesis
    using GenerateSignature_message_encoding [OF key, of "''test message''"]
      GenerateSignature_message_encoding
        [OF key, of "''0123456789abcdef0123456789abcdef and more''"]
      GenerateSignature_message_encoding [OF key, of "''0123456789abcdef0123456789abcdef''"]
      key short long run toy_sign(1)
    by simp
qed

section \<open>Signing fails exactly on a bad key\<close>

text \<open>
  C8: \<open>GenerateSignature\<close> returns an error exactly when the key string does not decode
  as hex or the decoded bytes do not deserialize as a secret key. With a key that does
  both, and a message of any length, it returns the hex string of the signature on the
  digest of the message.
\<close>

theorem GenerateSignature_fails_iff_bad_key:
  "(isl (GenerateSignature L privKeyHex msg) \<longleftrightarrow>
      isl (hexutil_Decode L privKeyHex) \<or>
      isl (bls_SecretKeyFromBytes L (projr (hexutil_Decode L privKeyHex)))) \<and>
   (sk_of_hex L privKeyHex = Some sk \<longrightarrow>
      GenerateSignature L privKeyHex msg =
        Inr (hexutil_Encode L (sig_Marshal L (sk_Sign L sk (msgBytes msg)))))"
  by (auto simp: GenerateSignature_def sk_of_hex_def split: sum.splits)

text \<open>
  A key string without the prefix, the zero key (which the instance does not
  deserialize), and a good key with a message of 41 bytes.
\<close>

theorem GenerateSignature_fails_iff_bad_key_witness:
  "isl (hexutil_Decode toy ''03'') \<and>
   GenerateSignature toy ''03'' ''test message'' = Inl (ErrDecodeSecretKeyHex HexMissingPrefix) \<and>
   hexutil_Decode toy ''0x00'' = Inr [0] \<and>
   isl (bls_SecretKeyFromBytes toy [0]) \<and>
   GenerateSignature toy ''0x00'' ''test message'' = Inl (ErrSecretKeyFromBytes ZeroKey) \<and>
   sk_of_hex toy ''0x03'' = Some 3 \<and>
   GenerateSignature toy ''0x03'' ''0123456789abcdef0123456789abcdef and more'' = Inr ''0xd1''"
proof -
  have bad: "isl (hexutil_Decode toy ''03'')" "hexutil_Decode toy ''0x00'' = Inr [0]"
    "isl (bls_SecretKeyFromBytes toy [0])"
    by (simp_all add: toy_eval)
  have key: "sk_of_hex toy ''0x03'' = Some 3"
    by (simp add: toy_eval)
  have run: "GenerateSignature toy ''03'' ''test message'' = Inl (ErrDecodeSecretKeyHex HexMissingPrefix)"
    "GenerateSignature toy ''0x00'' ''test message'' = Inl (ErrSecretKeyFromBytes ZeroKey)"
    "hexutil_Encode toy (sig_Marshal toy
       (sk_Sign toy 3 (msgBytes ''0123456789abcdef0123456789abcdef and more''))) = ''0xd1''"
    by (simp_all add: GenerateSignature_def toy_eval)
  show ?thesis
    using GenerateSignature_fails_iff_bad_key [of toy "''03''" "''test message''" 3]
      GenerateSignature_fails_iff_bad_key [of toy "''0x00''" "''test message''" 3]
      GenerateSignature_fails_iff_bad_key
        [of toy "''0x03''" "''0123456789abcdef0123456789abcdef and more''" 3]
      bad key run
    by simp
qed

section \<open>Aggregate verification has no length check\<close>

text \<open>
  C9: for a message longer than 32 bytes, a non-empty list of public-key strings that
  all decode and deserialize, and an aggregate-signature string that does,
  \<open>VerifyAggregateSignature\<close> returns no length error. Its result is the one for the
  first 32 bytes of the message: the library's batch verification of as many copies of
  the signature and of those 32 bytes as there are public keys.
\<close>

theorem VerifyAggregateSignature_no_length_ceiling:
  assumes "length msg > 32"
    and "pubKeyHexes \<noteq> []"
    and "\<forall>h \<in> set pubKeyHexes. pk_of_hex L h \<noteq> None"
    and "sig_of_hex L aggregateSigHex = Some aggSig"
  shows "VerifyAggregateSignature L aggregateSigHex msg pubKeyHexes \<noteq> Inl ErrInvalidMsgLength \<and>
         VerifyAggregateSignature L aggregateSigHex msg pubKeyHexes =
           VerifyAggregateSignature L aggregateSigHex (take 32 msg) pubKeyHexes \<and>
         VerifyAggregateSignature L aggregateSigHex msg pubKeyHexes =
           returned (bls_VerifyMultipleSignatures L
             (replicate (length pubKeyHexes) (sig_Marshal L aggSig))
             (replicate (length pubKeyHexes) (map of_char (take 32 msg)))
             (map (\<lambda>h. the (pk_of_hex L h)) pubKeyHexes))"
proof -
  have run: "VerifyAggregateSignature L aggregateSigHex m pubKeyHexes =
      returned (bls_VerifyMultipleSignatures L
        (replicate (length pubKeyHexes) (sig_Marshal L aggSig))
        (replicate (length pubKeyHexes) (msgBytes m))
        (map (\<lambda>h. the (pk_of_hex L h)) pubKeyHexes))" for m
    using assms(3,4) by (rule VerifyAggregateSignature_wf)
  have digest: "msgBytes msg = map of_char (take 32 msg)"
    using assms(1) by (simp add: msgBytes_long)
  have "VerifyAggregateSignature L aggregateSigHex msg pubKeyHexes \<noteq> Inl ErrInvalidMsgLength"
    by (simp add: run returned_def split: sum.splits)
  moreover have "VerifyAggregateSignature L aggregateSigHex msg pubKeyHexes =
      VerifyAggregateSignature L aggregateSigHex (take 32 msg) pubKeyHexes"
    by (simp add: run msgBytes_take)
  ultimately show ?thesis
    by (simp add: run digest)
qed

text \<open>
  The signature of key 3 on a message of 41 bytes, verified against the one public key
  of key 3: accepted for the long message and for its first 32 bytes, where
  \<open>VerifySignature\<close> returns the length error.
\<close>

theorem VerifyAggregateSignature_no_length_ceiling_witness:
  "length ''0123456789abcdef0123456789abcdef and more'' > 32 \<and>
   [''0x12''] \<noteq> [] \<and>
   pk_of_hex toy ''0x12'' \<noteq> None \<and>
   sig_of_hex toy ''0xd1'' = Some 209 \<and>
   VerifyAggregateSignature toy ''0xd1'' ''0123456789abcdef0123456789abcdef and more'' [''0x12''] =
     VerifyAggregateSignature toy ''0xd1''
       (take 32 ''0123456789abcdef0123456789abcdef and more'') [''0x12''] \<and>
   VerifyAggregateSignature toy ''0xd1'' ''0123456789abcdef0123456789abcdef and more'' [''0x12''] =
     Inr True \<and>
   VerifySignature toy ''0x12'' ''0xd1'' ''0123456789abcdef0123456789abcdef and more'' =
     Inl ErrInvalidMsgLength"
proof -
  have len: "length ''0123456789abcdef0123456789abcdef and more'' > 32"
    by simp
  have ne: "[''0x12''] \<noteq> []"
    by simp
  have wf: "pk_of_hex toy ''0x12'' \<noteq> None" "sig_of_hex toy ''0xd1'' = Some 209"
    by (simp_all add: toy_eval)
  then have all: "\<forall>h \<in> set [''0x12'']. pk_of_hex toy h \<noteq> None"
    by simp
  have run: "VerifyAggregateSignature toy ''0xd1''
      ''0123456789abcdef0123456789abcdef and more'' [''0x12''] = Inr True"
    by (simp add: VerifyAggregateSignature_def toy_eval)
  have single: "VerifySignature toy ''0x12'' ''0xd1''
      ''0123456789abcdef0123456789abcdef and more'' = Inl ErrInvalidMsgLength"
    by (simp add: VerifySignature_def)
  show ?thesis
    using VerifyAggregateSignature_no_length_ceiling [OF len ne all wf(2)] len wf run single
    by simp
qed

section \<open>Aggregate verification against no public key\<close>

text \<open>
  C10: with an empty list of public keys the result of \<open>VerifyAggregateSignature\<close> is
  the same for any two signature strings and any two messages: the signature string is
  decoded inside the loop over the public keys only, so here it is never looked at.
\<close>

theorem VerifyAggregateSignature_empty_keys_independent:
  "VerifyAggregateSignature L aggregateSigHex1 msg1 [] =
   VerifyAggregateSignature L aggregateSigHex2 msg2 []"
  by (simp add: VerifyAggregateSignature_def)

theorem VerifyAggregateSignature_empty_keys_independent_witness:
  "VerifyAggregateSignature toy ''zz, not hex'' ''one message'' [] =
   VerifyAggregateSignature toy ''0x98'' ''0123456789abcdef0123456789abcdef and more'' []"
  using VerifyAggregateSignature_empty_keys_independent
    [of toy "''zz, not hex''" "''one message''" "''0x98''"
      "''0123456789abcdef0123456789abcdef and more''"]
  by simp

end
